theory Spec2Isabelle
  imports
    Main
    "HOL-Library.AList"
    "HOL-Library.Sublist"
    "HOL-Library.Char_ord"
    "HOL-Library.List_Lexorder"
    "HOL-Library.Product_Lexorder"
begin

section \<open>The OpenAPI v3 builder of kube-openapi (pkg/builder3/openapi.go)\<close>

text \<open>
  A shallow embedding of \<^verbatim>\<open>pkg/builder3/openapi.go\<close>. Go pointers to freshly built values are
  modelled by the values themselves; a pointer that the code may leave \<^verbatim>\<open>nil\<close> is an
  \<open>option\<close>. A Go function returning \<^verbatim>\<open>(value, error)\<close> returns a pair whose second
  component is \<open>None\<close> for a \<^verbatim>\<open>nil\<close> error, so that the value handed back next to an
  error is part of the model. Methods on \<^verbatim>\<open>*openAPI\<close> that mutate the document take the
  document and return it updated.
\<close>

subsection \<open>Data model\<close>

text \<open>
  \<^verbatim>\<open>restful.ParameterData\<close>: the kind is an \<^verbatim>\<open>int\<close> in go-restful, with the five constants
  below (\<^verbatim>\<open>iota\<close> order); any other integer is a representable kind.
\<close>

definition PathParameterKind :: int where "PathParameterKind = 0"
definition QueryParameterKind :: int where "QueryParameterKind = 1"
definition BodyParameterKind :: int where "BodyParameterKind = 2"
definition HeaderParameterKind :: int where "HeaderParameterKind = 3"
definition FormParameterKind :: int where "FormParameterKind = 4"

lemmas ParameterKind_defs =
  PathParameterKind_def QueryParameterKind_def BodyParameterKind_def
  HeaderParameterKind_def FormParameterKind_def

record ParameterData =
  Name :: string
  Description :: string
  DataType :: string
  Kind :: int
  Required :: bool

text \<open>\<^verbatim>\<open>spec3.Parameter\<close>, with the fields of \<^verbatim>\<open>ParameterProps\<close> that the builder sets.\<close>

record Parameter =
  pName :: string
  pIn :: string
  pDescription :: string
  pRequired :: bool

text \<open>The errors of the builder, one constructor for each \<^verbatim>\<open>fmt.Errorf\<close> of the file, plus
  the error of the caller-supplied \<^verbatim>\<open>GetOperationIDAndTags\<close>.\<close>

datatype error =
    DuplicatePath string
  | DuplicateParameter string
  | UnsupportedParameterKind int
  | InvalidRequiredness ParameterData
  | UnknownType string
  | DuplicateMediaType string string
  | CollaboratorError string

subsection \<open>buildParameter and buildParameters\<close>

text \<open>
  \<^verbatim>\<open>buildParameter\<close> (lines 138-162). The second argument, the body sample, is never read
  by the function and is left out. The parameter built so far is returned next to the error.
\<close>

definition buildParameter :: "ParameterData \<Rightarrow> Parameter \<times> error option" where
  "buildParameter restParam =
     (let ret = \<lparr> pName = Name restParam, pIn = [],
                  pDescription = Description restParam, pRequired = Required restParam \<rparr>
      in if Kind restParam = PathParameterKind then
           (if \<not> Required restParam
            then (ret\<lparr>pIn := ''path''\<rparr>, Some (InvalidRequiredness restParam))
            else (ret\<lparr>pIn := ''path''\<rparr>, None))
         else if Kind restParam = QueryParameterKind then (ret\<lparr>pIn := ''query''\<rparr>, None)
         else if Kind restParam = HeaderParameterKind then (ret\<lparr>pIn := ''header''\<rparr>, None)
         else (ret, Some (UnsupportedParameterKind (Kind restParam))))"

text \<open>
  \<^verbatim>\<open>buildParameters\<close> (lines 127-136). Slot \<open>i\<close> of the result is written before the error is
  tested, so on an error the result holds the parameters built so far and the one built next to
  the error; the slots left \<^verbatim>\<open>nil\<close> behind it are not represented (the only caller drops the
  slice on an error).
\<close>

fun buildParametersFrom ::
  "ParameterData list \<Rightarrow> Parameter list \<Rightarrow> Parameter list \<times> error option" where
  "buildParametersFrom [] ret = (ret, None)"
| "buildParametersFrom (v # vs) ret =
     (case buildParameter v of
        (p, Some e) \<Rightarrow> (ret @ [p], Some e)
      | (p, None) \<Rightarrow> buildParametersFrom vs (ret @ [p]))"

definition buildParameters :: "ParameterData list \<Rightarrow> Parameter list \<times> error option" where
  "buildParameters restParam = buildParametersFrom restParam []"

subsection \<open>Routes\<close>

text \<open>
  \<^verbatim>\<open>restful.ResponseError\<close> and \<^verbatim>\<open>restful.Route\<close>. A payload sample (\<^verbatim>\<open>interface{}\<close>) is
  read by the builder only through \<^verbatim>\<open>util.GetCanonicalTypeName\<close> and a \<^verbatim>\<open>nil\<close> test, so a
  sample is represented by its canonical type name and \<^verbatim>\<open>nil\<close> by \<open>None\<close>.
  \<^verbatim>\<open>ResponseErrors\<close> and \<^verbatim>\<open>Metadata\<close> are Go maps; the lists give their entries in the
  order in which the builder's \<^verbatim>\<open>range\<close> loops meet them, an order Go leaves unspecified.
\<close>

record ResponseError =
  Code :: int
  Message :: string
  Model :: string

record Route =
  Method :: string
  Path :: string
  Doc :: string
  Produces :: "string list"
  Consumes :: "string list"
  ParameterDocs :: "ParameterData list"
  ResponseErrors :: "ResponseError list"
  ReadSample :: "string option"
  WriteSample :: "string option"
  Metadata :: "(string \<times> string) list"

subsection \<open>findCommonParameters\<close>

type_synonym paramKey = "string \<times> int"

text \<open>
  Modelled from the spec: \<^verbatim>\<open>mapKeyFromParam\<close>, a helper of the package that is not among the
  sources. The spec identifies a parameter within a route by the pair (name, kind).
\<close>

definition mapKeyFromParam :: "ParameterData \<Rightarrow> paramKey" where
  "mapKeyFromParam param = (Name param, Kind param)"

text \<open>The zero value of \<^verbatim>\<open>restful.ParameterData\<close>, which Go returns for a key absent from a map.\<close>

definition zeroParameterData :: ParameterData where
  "zeroParameterData =
     \<lparr> Name = [], Description = [], DataType = [], Kind = 0, Required = False \<rparr>"

definition lookupData :: "(paramKey \<rightharpoonup> ParameterData) \<Rightarrow> paramKey \<Rightarrow> ParameterData" where
  "lookupData m key = (case m key of Some d \<Rightarrow> d | None \<Rightarrow> zeroParameterData)"

definition lookupCount :: "(paramKey \<times> nat) list \<Rightarrow> paramKey \<Rightarrow> nat" where
  "lookupCount m key = (case map_of m key of Some c \<Rightarrow> c | None \<Rightarrow> 0)"

text \<open>
  The first loop of \<^verbatim>\<open>findCommonParameters\<close> (lines 325-340). \<^verbatim>\<open>paramOpsCountByName\<close> is kept
  as an association list in insertion order, because the second loop ranges over it;
  \<^verbatim>\<open>paramNameKindToDataMap\<close> is a map. \<open>tallyParams\<close> is the inner loop over the parameters of
  one route, with that route's \<^verbatim>\<open>routeParamDuplicateMap\<close> as a set.
\<close>

type_synonym tally = "(paramKey \<times> nat) list \<times> (paramKey \<rightharpoonup> ParameterData)"

fun tallyParams :: "ParameterData list \<Rightarrow> paramKey set \<Rightarrow> tally \<Rightarrow> error + tally" where
  "tallyParams [] routeParamDuplicateMap t = Inr t"
| "tallyParams (param # params) routeParamDuplicateMap (paramOpsCountByName, paramNameKindToDataMap) =
     (let key = mapKeyFromParam param in
      if key \<in> routeParamDuplicateMap then Inl (DuplicateParameter (Name param))
      else tallyParams params (insert key routeParamDuplicateMap)
             (AList.update key (Suc (lookupCount paramOpsCountByName key)) paramOpsCountByName,
              paramNameKindToDataMap(key \<mapsto> param)))"

fun tallyRoutes :: "Route list \<Rightarrow> tally \<Rightarrow> error + tally" where
  "tallyRoutes [] t = Inr t"
| "tallyRoutes (route # routes) t =
     (case tallyParams (ParameterDocs route) {} t of
        Inl e \<Rightarrow> Inl e
      | Inr t' \<Rightarrow> tallyRoutes routes t')"

text \<open>
  The second loop (lines 341-350), over the entries of \<^verbatim>\<open>paramOpsCountByName\<close>; \<open>n\<close> is
  \<^verbatim>\<open>len(routes)\<close>. Go ranges over a map in an unspecified order; the loop is defined for any
  list of entries, and \<open>findCommonParameters\<close> runs it in insertion order.
\<close>

fun hoistCommon ::
  "nat \<Rightarrow> (paramKey \<rightharpoonup> ParameterData) \<Rightarrow> (paramKey \<times> nat) list \<Rightarrow>
   (paramKey \<times> Parameter) list \<Rightarrow> (paramKey \<times> Parameter) list \<times> error option" where
  "hoistCommon n paramNameKindToDataMap [] commonParamsMap = (commonParamsMap, None)"
| "hoistCommon n paramNameKindToDataMap ((key, count) # rest) commonParamsMap =
     (let paramData = lookupData paramNameKindToDataMap key in
      if count = n \<and> Kind paramData \<noteq> BodyParameterKind then
        (case buildParameter paramData of
           (openAPIParam, Some err) \<Rightarrow> (commonParamsMap, Some err)
         | (openAPIParam, None) \<Rightarrow>
             hoistCommon n paramNameKindToDataMap rest
               (AList.update key openAPIParam commonParamsMap))
      else hoistCommon n paramNameKindToDataMap rest commonParamsMap)"

definition findCommonParameters :: "Route list \<Rightarrow> (paramKey \<times> Parameter) list \<times> error option" where
  "findCommonParameters routes =
     (case tallyRoutes routes ([], Map.empty) of
        Inl e \<Rightarrow> ([], Some e)
      | Inr (paramOpsCountByName, paramNameKindToDataMap) \<Rightarrow>
          hoistCommon (length routes) paramNameKindToDataMap paramOpsCountByName [])"

subsection \<open>Schemas, responses, operations, the document and the configuration\<close>

text \<open>
  \<^verbatim>\<open>spec.Schema\<close> of go-openapi: its vendor extensions (a map that may be \<^verbatim>\<open>nil\<close>), the
  fields of \<^verbatim>\<open>SchemaProps\<close> that the builder writes plus the description, and the extra
  properties, which the copy made by \<^verbatim>\<open>buildDefinitionRecursively\<close> drops.
\<close>

record Schema =
  sExtensions :: "(string \<rightharpoonup> string) option"
  sType :: "string list"
  sFormat :: string
  sRef :: string
  sDescription :: string
  sExtraProps :: "(string \<times> string) list"

definition emptySchema :: Schema where
  "emptySchema = \<lparr> sExtensions = None, sType = [], sFormat = [], sRef = [],
                    sDescription = [], sExtraProps = [] \<rparr>"

text \<open>\<^verbatim>\<open>common.OpenAPIDefinition\<close>: a schema and the names of the types it depends on.\<close>

record OpenAPIDefinition =
  defSchema :: Schema
  Dependencies :: "string list"

record MediaType =
  mtSchema :: Schema

record Response =
  rDescription :: string
  Content :: "string \<rightharpoonup> MediaType"

text \<open>
  \<^verbatim>\<open>spec3.Responses\<close>: the status-code map holds pointers, and \<^verbatim>\<open>buildOperations\<close> stores the
  \<^verbatim>\<open>nil\<close> that a failed \<^verbatim>\<open>buildResponse\<close> returns before it tests the error; the map is an
  association list with distinct keys, so that \<^verbatim>\<open>len(...) == 0\<close> is a test for the empty list.
\<close>

record Responses =
  StatusCodeResponses :: "(int \<times> Response option) list"
  Default :: "Response option"

record Operation =
  opDescription :: string
  opProduces :: "string list"
  opSchemes :: "string list"
  opResponses :: Responses
  opExtensions :: "(string \<rightharpoonup> string) option"
  opID :: string
  opTags :: "string list"
  opParameters :: "Parameter list"

text \<open>\<^verbatim>\<open>spec3.Path\<close>: the path-level parameters and one optional operation for each method.\<close>

record PathItem =
  Parameters :: "Parameter list"
  Get :: "Operation option"
  Put :: "Operation option"
  Post :: "Operation option"
  Delete :: "Operation option"
  Options :: "Operation option"
  Head :: "Operation option"
  Patch :: "Operation option"

text \<open>
  \<^verbatim>\<open>spec3.OpenAPI\<close>, the document: \<open>Paths\<close> is \<^verbatim>\<open>spec.Paths.Paths\<close> and \<open>Schemas\<close> is
  \<^verbatim>\<open>spec.Components.Schemas\<close>.
\<close>

record OpenAPI =
  Paths :: "string \<rightharpoonup> PathItem"
  Schemas :: "string \<rightharpoonup> Schema"

text \<open>\<^verbatim>\<open>common.Config\<close>, with the fields the builder reads.\<close>

record Config =
  IgnorePrefixes :: "string list"
  ProtocolList :: "string list"
  GetOperationIDAndTags :: "Route \<Rightarrow> string \<times> string list \<times> error option"
  GetDefinitionName :: "string \<Rightarrow> string \<times> (string \<times> string) list option"
  CommonResponses :: "(int \<times> Response option) list"
  DefaultResponse :: "Response option"

text \<open>
  The receiver \<^verbatim>\<open>openAPI\<close>. Its fields \<^verbatim>\<open>config\<close> and \<^verbatim>\<open>definitions\<close> are never assigned by
  the methods below, so they are passed along unchanged, and its document \<^verbatim>\<open>spec\<close> is threaded
  through the methods as a separate argument and result. \<^verbatim>\<open>definitions\<close> is a Go map (an
  association list read with \<open>map_of\<close>).
\<close>

record openAPI =
  config :: Config
  definitions :: "(string \<times> OpenAPIDefinition) list"

text \<open>
  Two functions of package \<^verbatim>\<open>common\<close> are not among the sources: \<^verbatim>\<open>GetOpenAPITypeFormat\<close>,
  which gives the type and format of a primitive type name and an empty type otherwise, and
  \<^verbatim>\<open>EscapeJsonPointer\<close>. They are parameters of the model.
\<close>

record commonPkg =
  GetOpenAPITypeFormat :: "string \<Rightarrow> string \<times> string"
  EscapeJsonPointer :: "string \<Rightarrow> string"

subsection \<open>buildDefinitionRecursively and buildDefinitionForType\<close>

text \<open>
  Lines 274-286: the copy of the definition's schema with the extensions of
  \<^verbatim>\<open>GetDefinitionName\<close> written over it. (In Go the copy shares its extensions map with the
  definition; the definitions are not read again under the same display name, and the model does
  not write the extensions back.)
\<close>

definition withExtensions :: "Schema \<Rightarrow> (string \<times> string) list option \<Rightarrow> Schema" where
  "withExtensions itemSchema extensions =
     (let schema = itemSchema\<lparr>sExtraProps := []\<rparr> in
      case extensions of
        None \<Rightarrow> schema
      | Some kvs \<Rightarrow>
          schema\<lparr>sExtensions :=
            Some (foldl (\<lambda>m (k, v). m(k \<mapsto> v))
                    (case sExtensions schema of None \<Rightarrow> Map.empty | Some m \<Rightarrow> m) kvs)\<rparr>)"

text \<open>The display names that the definitions can ever put into the schema map.\<close>

definition displayNames :: "openAPI \<Rightarrow> string set" where
  "displayNames b = (\<lambda>name. fst (GetDefinitionName (config b) name)) ` fst ` set (definitions b)"

text \<open>
  \<^verbatim>\<open>buildDefinitionRecursively\<close> (lines 268-297), with the loop over the dependencies
  (lines 288-292) as \<open>buildDependencies\<close>. The schema is stored before the dependencies are
  visited.
\<close>

function buildDefinitionRecursively :: "openAPI \<Rightarrow> string \<Rightarrow> OpenAPI \<Rightarrow> OpenAPI \<times> error option"
  and buildDependencies :: "openAPI \<Rightarrow> string list \<Rightarrow> OpenAPI \<Rightarrow> OpenAPI \<times> error option" where
  "buildDefinitionRecursively b name doc =
     (case GetDefinitionName (config b) name of
        (uniqueName, extensions) \<Rightarrow>
          if Schemas doc uniqueName \<noteq> None then (doc, None)
          else (case map_of (definitions b) name of
                  Some item \<Rightarrow>
                    buildDependencies b (Dependencies item)
                      (doc\<lparr>Schemas := (Schemas doc)
                         (uniqueName \<mapsto> withExtensions (defSchema item) extensions)\<rparr>)
                | None \<Rightarrow> (doc, Some (UnknownType name))))"
| "buildDependencies b [] doc = (doc, None)"
| "buildDependencies b (v # vs) doc =
     (case buildDefinitionRecursively b v doc of
        (doc', Some err) \<Rightarrow> (doc', Some err)
      | (doc', None) \<Rightarrow> buildDependencies b vs doc')"
  by pat_completeness auto

text \<open>
  Termination. Every call that gets past the memoization test stores a display name that was not
  in the schema map and that belongs to the finite set \<open>displayNames\<close>; the schema map never
  loses a key. So the number of display names still unused decreases along the recursion into a
  definition, and stays or decreases along the loop, whose list gets shorter.
\<close>

lemma buildDefinition_dom_mono_partial:
  "buildDefinitionRecursively_buildDependencies_dom (Inl (b, name, doc)) \<Longrightarrow>
     dom (Schemas doc) \<subseteq> dom (Schemas (fst (buildDefinitionRecursively b name doc)))"
  "buildDefinitionRecursively_buildDependencies_dom (Inr (b, vs, doc)) \<Longrightarrow>
     dom (Schemas doc) \<subseteq> dom (Schemas (fst (buildDependencies b vs doc)))"
proof (induction b name doc and b vs doc rule: buildDefinitionRecursively_buildDependencies.pinduct)
  case (1 b name doc)
  obtain uniqueName extensions where g: "GetDefinitionName (config b) name = (uniqueName, extensions)"
    by (cases "GetDefinitionName (config b) name")
  show ?case
  proof (cases "Schemas doc uniqueName \<noteq> None")
    case True
    with 1(1) g show ?thesis by (simp add: buildDefinitionRecursively.psimps)
  next
    case False
    show ?thesis
    proof (cases "map_of (definitions b) name")
      case None
      with 1(1) g False show ?thesis by (simp add: buildDefinitionRecursively.psimps)
    next
      case (Some item)
      let ?doc' = "doc\<lparr>Schemas := (Schemas doc)(uniqueName \<mapsto> withExtensions (defSchema item) extensions)\<rparr>"
      have eq: "buildDefinitionRecursively b name doc = buildDependencies b (Dependencies item) ?doc'"
        using 1(1) g False Some by (simp add: buildDefinitionRecursively.psimps)
      have inner: "dom (Schemas ?doc') \<subseteq> dom (Schemas (fst (buildDependencies b (Dependencies item) ?doc')))"
        by (rule 1(2)[OF g[symmetric] False Some])
      have outer: "dom (Schemas doc) \<subseteq> dom (Schemas ?doc')"
        by (simp add: subset_insertI)
      from outer inner have "dom (Schemas doc) \<subseteq> dom (Schemas (fst (buildDependencies b (Dependencies item) ?doc')))"
        by (rule order_trans)
      then show ?thesis by (simp only: eq)
    qed
  qed
next
  case (2 b doc)
  then show ?case by (simp add: buildDependencies.psimps)
next
  case (3 b v vs doc)
  show ?case
  proof (cases "buildDefinitionRecursively b v doc")
    case (Pair doc' err)
    show ?thesis
    proof (cases err)
      case None
      have eq: "buildDependencies b (v # vs) doc = buildDependencies b vs doc'"
        using 3(1) Pair None by (simp add: buildDependencies.psimps)
      have first: "dom (Schemas doc) \<subseteq> dom (Schemas doc')"
        using 3(2) Pair by simp
      have rest: "dom (Schemas doc') \<subseteq> dom (Schemas (fst (buildDependencies b vs doc')))"
        using Pair None by (intro 3(3)) auto
      from first rest show ?thesis unfolding eq by (rule order_trans)
    next
      case (Some e)
      have eq: "buildDependencies b (v # vs) doc = (doc', Some e)"
        using 3(1) Pair Some by (simp add: buildDependencies.psimps)
      show ?thesis using 3(2) Pair by (simp add: eq)
    qed
  qed
qed


lemma finite_displayNames: "finite (displayNames b)"
  by (simp add: displayNames_def)

lemma buildDefinition_total: "All buildDefinitionRecursively_buildDependencies_dom"
proof (relation "(\<lambda>x. case x of Inl (b, name, doc) \<Rightarrow> card (displayNames b - dom (Schemas doc))
                             | Inr (b, vs, doc) \<Rightarrow> card (displayNames b - dom (Schemas doc)))
                 <*mlex*> measure (\<lambda>x. case x of Inl _ \<Rightarrow> 0 | Inr (b, vs, doc) \<Rightarrow> Suc (length vs))",
       goal_cases)
  case 1
  show ?case by (simp add: wf_mlex)
next
  case (2 b name doc uniqueName extensions item)
  have "(name, item) \<in> set (definitions b)"
    using 2(3) by (rule map_of_SomeD)
  then have "fst (GetDefinitionName (config b) name) \<in> displayNames b"
    unfolding displayNames_def by force
  then have mem: "uniqueName \<in> displayNames b"
    using 2(1) by (metis fst_conv)
  have fresh: "uniqueName \<notin> dom (Schemas doc)" using 2(2) by auto
  have "displayNames b - insert uniqueName (dom (Schemas doc)) \<subset> displayNames b - dom (Schemas doc)"
    using mem fresh by blast
  then have "card (displayNames b - insert uniqueName (dom (Schemas doc)))
        < card (displayNames b - dom (Schemas doc))"
    by (intro psubset_card_mono) (simp_all add: finite_displayNames)
  then show ?case by (simp add: mlex_less)
next
  case (3 b v vs doc)
  show ?case by (simp add: mlex_leq)
next
  case (4 b v vs doc doc' err)
  have "dom (Schemas doc) \<subseteq> dom (Schemas doc')"
    using buildDefinition_dom_mono_partial(1)[OF 4(3)] 4(1) by (metis fst_conv)
  then have "card (displayNames b - dom (Schemas doc')) \<le> card (displayNames b - dom (Schemas doc))"
    by (intro card_mono) (auto simp: finite_displayNames)
  then show ?case by (simp add: mlex_leq)
qed

termination buildDefinitionRecursively
  by (rule buildDefinition_total)

declare buildDefinitionRecursively.simps [simp del]

lemma buildDefinitionRecursively_dom_mono:
  "dom (Schemas doc) \<subseteq> dom (Schemas (fst (buildDefinitionRecursively b name doc)))"
  by (rule buildDefinition_dom_mono_partial(1)) (rule spec[OF buildDefinition_total])

lemma buildDependencies_dom_mono:
  "dom (Schemas doc) \<subseteq> dom (Schemas (fst (buildDependencies b vs doc)))"
  by (rule buildDefinition_dom_mono_partial(2)) (rule spec[OF buildDefinition_total])


text \<open>
  \<^verbatim>\<open>buildDefinitionForType\<close> (lines 259-265): on an error the reference is the empty string.
\<close>

definition buildDefinitionForType ::
  "commonPkg \<Rightarrow> openAPI \<Rightarrow> string \<Rightarrow> OpenAPI \<Rightarrow> string \<times> OpenAPI \<times> error option" where
  "buildDefinitionForType c b name doc =
     (case buildDefinitionRecursively b name doc of
        (doc', Some err) \<Rightarrow> ([], doc', Some err)
      | (doc', None) \<Rightarrow>
          (''#/components/schemas/'' @ EscapeJsonPointer c (fst (GetDefinitionName (config b) name)),
           doc', None))"

text \<open>
  \<^verbatim>\<open>toSchema\<close> (lines 299-318); \<^verbatim>\<open>spec.MustCreateRef\<close> is taken as storing the reference string.
\<close>

definition toSchema ::
  "commonPkg \<Rightarrow> openAPI \<Rightarrow> string \<Rightarrow> OpenAPI \<Rightarrow> Schema option \<times> OpenAPI \<times> error option" where
  "toSchema c b name doc =
     (case GetOpenAPITypeFormat c name of
        (openAPIType, openAPIFormat) \<Rightarrow>
          if openAPIType \<noteq> [] then
            (Some (emptySchema\<lparr>sType := [openAPIType], sFormat := openAPIFormat\<rparr>), doc, None)
          else (case buildDefinitionForType c b name doc of
                  (ref, doc', Some err) \<Rightarrow> (None, doc', Some err)
                | (ref, doc', None) \<Rightarrow> (Some (emptySchema\<lparr>sRef := ref\<rparr>), doc', None)))"

subsection \<open>buildResponse and buildOperations\<close>

text \<open>The loop of \<^verbatim>\<open>buildResponse\<close> over the media types (lines 242-251).\<close>

fun buildContent ::
  "string \<Rightarrow> Schema \<Rightarrow> string list \<Rightarrow> (string \<rightharpoonup> MediaType) \<Rightarrow> error + (string \<rightharpoonup> MediaType)" where
  "buildContent model schema [] content = Inr content"
| "buildContent model schema (mediaType # mediaTypes) content =
     (if content mediaType \<noteq> None then Inl (DuplicateMediaType mediaType model)
      else buildContent model schema mediaTypes (content(mediaType \<mapsto> \<lparr> mtSchema = schema \<rparr>)))"

text \<open>\<^verbatim>\<open>buildResponse\<close> (lines 230-254); \<open>model\<close> is the sample's canonical type name.\<close>

definition buildResponse ::
  "commonPkg \<Rightarrow> openAPI \<Rightarrow> string \<Rightarrow> string \<Rightarrow> string list \<Rightarrow> OpenAPI \<Rightarrow>
   Response option \<times> OpenAPI \<times> error option" where
  "buildResponse c b model description mediaTypes doc =
     (case toSchema c b model doc of
        (_, doc', Some err) \<Rightarrow> (None, doc', Some err)
      | (None, doc', None) \<Rightarrow> (None, doc', None)
      | (Some schema, doc', None) \<Rightarrow>
          (case buildContent model schema mediaTypes Map.empty of
             Inl err \<Rightarrow> (None, doc', Some err)
           | Inr content \<Rightarrow>
               (Some \<lparr> rDescription = description, Content = content \<rparr>, doc', None)))"

text \<open>
  The prefix that marks a metadata key as an extension. The constant is not declared in the
  sources; line 36 carries its value in a comment.
\<close>

definition extensionPrefix :: string where
  "extensionPrefix = ''x-kubernetes-''"

text \<open>
  Lines 180-187 of \<^verbatim>\<open>buildOperations\<close>; \<^verbatim>\<open>Extensions.Add\<close> of go-openapi is taken as storing the
  value under the key.
\<close>

fun addExtensions ::
  "(string \<times> string) list \<Rightarrow> (string \<rightharpoonup> string) option \<Rightarrow> (string \<rightharpoonup> string) option" where
  "addExtensions [] extensions = extensions"
| "addExtensions ((k, v) # metadata) extensions =
     (if prefix extensionPrefix k
      then addExtensions metadata
             (Some ((case extensions of None \<Rightarrow> Map.empty | Some m \<Rightarrow> m)(k \<mapsto> v)))
      else addExtensions metadata extensions)"

text \<open>
  Lines 193-198: one response for each declared response error. The result of
  \<^verbatim>\<open>buildResponse\<close> is stored under the code before its error is tested.
\<close>

fun buildResponseErrors ::
  "commonPkg \<Rightarrow> openAPI \<Rightarrow> string list \<Rightarrow> ResponseError list \<Rightarrow> (int \<times> Response option) list \<Rightarrow>
   OpenAPI \<Rightarrow> (int \<times> Response option) list \<times> OpenAPI \<times> error option" where
  "buildResponseErrors c b consumes [] statusCodeResponses doc = (statusCodeResponses, doc, None)"
| "buildResponseErrors c b consumes (resp # rest) statusCodeResponses doc =
     (case buildResponse c b (Model resp) (Message resp) consumes doc of
        (r, doc', Some err) \<Rightarrow> (AList.update (Code resp) r statusCodeResponses, doc', Some err)
      | (r, doc', None) \<Rightarrow>
          buildResponseErrors c b consumes rest (AList.update (Code resp) r statusCodeResponses) doc')"

text \<open>
  Lines 206-210: the common responses are copied in, each one only under a code that is not yet
  in the map.
\<close>

fun mergeCommonResponses ::
  "(int \<times> Response option) list \<Rightarrow> (int \<times> Response option) list \<Rightarrow> (int \<times> Response option) list" where
  "mergeCommonResponses [] statusCodeResponses = statusCodeResponses"
| "mergeCommonResponses ((code, resp) # rest) statusCodeResponses =
     (if map_of statusCodeResponses code = None
      then mergeCommonResponses rest (AList.update code resp statusCodeResponses)
      else mergeCommonResponses rest statusCodeResponses)"

text \<open>Lines 216-226: the parameters of the route that are not common to the path.\<close>

fun buildNonCommonParameters ::
  "(paramKey \<times> Parameter) list \<Rightarrow> ParameterData list \<Rightarrow> Parameter list \<Rightarrow> Parameter list \<times> error option" where
  "buildNonCommonParameters inPathCommonParamsMap [] parameters = (parameters, None)"
| "buildNonCommonParameters inPathCommonParamsMap (param # params) parameters =
     (if map_of inPathCommonParamsMap (mapKeyFromParam param) = None then
        (case buildParameter param of
           (openAPIParam, Some err) \<Rightarrow> (parameters, Some err)
         | (openAPIParam, None) \<Rightarrow>
             buildNonCommonParameters inPathCommonParamsMap params (parameters @ [openAPIParam]))
      else buildNonCommonParameters inPathCommonParamsMap params parameters)"

text \<open>
  Lines 192-205 of \<^verbatim>\<open>buildOperations\<close>: the responses of the route itself, from its declared
  response errors or, when there is none, from its write sample under \<^verbatim>\<open>http.StatusOK\<close> (200).
\<close>

definition buildRouteResponses ::
  "commonPkg \<Rightarrow> openAPI \<Rightarrow> Route \<Rightarrow> OpenAPI \<Rightarrow> (int \<times> Response option) list \<times> OpenAPI \<times> error option" where
  "buildRouteResponses c b route doc =
     (case buildResponseErrors c b (Consumes route) (ResponseErrors route) [] doc of
        (rs, doc1, Some err) \<Rightarrow> (rs, doc1, Some err)
      | (rs, doc1, None) \<Rightarrow>
          (case WriteSample route of
             Some sample \<Rightarrow>
               if rs = []
               then (case buildResponse c b sample ''OK'' (Consumes route) doc1 of
                       (r, doc2, err) \<Rightarrow> (AList.update 200 r rs, doc2, err))
               else (rs, doc1, None)
           | None \<Rightarrow> (rs, doc1, None)))"

text \<open>\<^verbatim>\<open>buildOperations\<close> (lines 166-228).\<close>

definition buildOperations ::
  "commonPkg \<Rightarrow> openAPI \<Rightarrow> Route \<Rightarrow> (paramKey \<times> Parameter) list \<Rightarrow> OpenAPI \<Rightarrow>
   Operation \<times> OpenAPI \<times> error option" where
  "buildOperations c b route inPathCommonParamsMap doc =
     (let ret0 = \<lparr> opDescription = Doc route, opProduces = Produces route,
                   opSchemes = ProtocolList (config b),
                   opResponses = \<lparr> StatusCodeResponses = [], Default = None \<rparr>,
                   opExtensions = addExtensions (Metadata route) None,
                   opID = [], opTags = [], opParameters = [] \<rparr> in
      case GetOperationIDAndTags (config b) route of
        (ident, tags, idErr) \<Rightarrow>
          (let ret1 = ret0\<lparr>opID := ident, opTags := tags\<rparr> in
           if idErr \<noteq> None then (ret1, doc, idErr)
           else
             (case buildRouteResponses c b route doc of
                (rs, doc', Some err) \<Rightarrow>
                  (ret1\<lparr>opResponses := \<lparr> StatusCodeResponses = rs, Default = None \<rparr>\<rparr>, doc', Some err)
              | (rs, doc', None) \<Rightarrow>
                  (let rs' = mergeCommonResponses (CommonResponses (config b)) rs;
                       ret2 = ret1\<lparr>opResponses :=
                                \<lparr> StatusCodeResponses = rs',
                                  Default = (if rs' = [] then DefaultResponse (config b) else None) \<rparr>\<rparr>
                   in case buildNonCommonParameters inPathCommonParamsMap (ParameterDocs route) [] of
                        (ps, err) \<Rightarrow> (ret2\<lparr>opParameters := ps\<rparr>, doc', err)))))"

subsection \<open>buildOpenAPISpec\<close>

text \<open>\<^verbatim>\<open>restful.WebService\<close>, through the three accessors the builder calls.\<close>

record WebService =
  RootPath :: string
  PathParameters :: "ParameterData list"
  Routes :: "Route list"

text \<open>
  Modelled from the spec: the prefix set \<^verbatim>\<open>util.NewTrie(...).HasPrefix\<close>, which is not among the
  sources. The spec calls it a prefix-exclusion set applied to a path: the path is excluded when
  one of the configured prefixes is a prefix of it.
\<close>

definition HasPrefix :: "string list \<Rightarrow> string \<Rightarrow> bool" where
  "HasPrefix pathsToIgnore path = list_ex (\<lambda>p. prefix p path) pathsToIgnore"

text \<open>
  Modelled from the spec: \<^verbatim>\<open>groupRoutesByPath\<close>, a helper of the package that is not among the
  sources. The spec says that it groups the routes of a web service by their path template. The
  result is a Go map; the list gives its entries in the order in which the paths first occur,
  where Go leaves the order of the \<^verbatim>\<open>range\<close> loop over it unspecified.
\<close>

fun groupRoutesInto :: "Route list \<Rightarrow> (string \<times> Route list) list \<Rightarrow> (string \<times> Route list) list" where
  "groupRoutesInto [] pathToRoutes = pathToRoutes"
| "groupRoutesInto (r # rs) pathToRoutes =
     groupRoutesInto rs
       (AList.update (Path r)
          ((case map_of pathToRoutes (Path r) of None \<Rightarrow> [] | Some xs \<Rightarrow> xs) @ [r]) pathToRoutes)"

definition groupRoutesByPath :: "Route list \<Rightarrow> (string \<times> Route list) list" where
  "groupRoutesByPath routes = groupRoutesInto routes []"

text \<open>
  Modelled from the spec: \<^verbatim>\<open>sortParameters\<close>, a helper of the package that is not among the
  sources. The spec asks for a deterministic order, sorted by location and then by name.
\<close>

definition sortParameters :: "Parameter list \<Rightarrow> Parameter list" where
  "sortParameters ps = sort_key (\<lambda>p. (pIn p, pName p)) ps"

text \<open>Lines 87-89: a trailing \<^verbatim>\<open>:*}\<close> of a path becomes \<^verbatim>\<open>}\<close>.\<close>

definition normalizePath :: "string \<Rightarrow> string" where
  "normalizePath path =
     (if suffix '':*}'' path then take (length path - 3) path @ ''}'' else path)"

text \<open>
  The inner loop of \<^verbatim>\<open>buildOpenAPISpec\<close> (lines 84-121) over the groups of one web service.
  The loop over the routes of a group (lines 115-118) has an empty body: no operation is built
  and the path item carries its parameters only.
\<close>

fun buildPaths ::
  "openAPI \<Rightarrow> Parameter list \<Rightarrow> (string \<times> Route list) list \<Rightarrow> OpenAPI \<Rightarrow> OpenAPI \<times> error option" where
  "buildPaths b commonParams [] doc = (doc, None)"
| "buildPaths b commonParams ((path0, routes) # groups) doc =
     (let path = normalizePath path0 in
      if HasPrefix (IgnorePrefixes (config b)) path then buildPaths b commonParams groups doc
      else
        (case findCommonParameters routes of
           (inPathCommonParamsMap, Some err) \<Rightarrow> (doc, Some err)
         | (inPathCommonParamsMap, None) \<Rightarrow>
             if Paths doc path \<noteq> None then (doc, Some (DuplicatePath path))
             else
               (let pathItem =
                      \<lparr> Parameters = sortParameters (commonParams @ map snd inPathCommonParamsMap),
                        Get = None, Put = None, Post = None, Delete = None,
                        Options = None, Head = None, Patch = None \<rparr>
                in buildPaths b commonParams groups (doc\<lparr>Paths := (Paths doc)(path \<mapsto> pathItem)\<rparr>))))"

text \<open>\<^verbatim>\<open>buildOpenAPISpec\<close> (lines 72-125): the outer loop over the web services.\<close>

fun buildOpenAPISpec :: "openAPI \<Rightarrow> WebService list \<Rightarrow> OpenAPI \<Rightarrow> OpenAPI \<times> error option" where
  "buildOpenAPISpec b [] doc = (doc, None)"
| "buildOpenAPISpec b (w # webServices) doc =
     (if HasPrefix (IgnorePrefixes (config b)) (RootPath w) then buildOpenAPISpec b webServices doc
      else
        (case buildParameters (PathParameters w) of
           (commonParams, Some err) \<Rightarrow> (doc, Some err)
         | (commonParams, None) \<Rightarrow>
             (case buildPaths b commonParams (groupRoutesByPath (Routes w)) doc of
                (doc', Some err) \<Rightarrow> (doc', Some err)
              | (doc', None) \<Rightarrow> buildOpenAPISpec b webServices doc')))"

text \<open>
  \<^verbatim>\<open>newOpenAPI\<close> (lines 55-70) and \<^verbatim>\<open>BuildOpenAPISpec\<close> (lines 48-52). The builder starts from a
  document without paths; nothing fills its definitions. \<^verbatim>\<open>BuildOpenAPISpec\<close> returns the pointer
  \<^verbatim>\<open>o.spec\<close> (\<open>None\<close> would be \<^verbatim>\<open>nil\<close>) next to the error.
\<close>

definition newOpenAPI :: "Config \<Rightarrow> openAPI \<times> OpenAPI" where
  "newOpenAPI cfg = (\<lparr> config = cfg, definitions = [] \<rparr>, \<lparr> Paths = Map.empty, Schemas = Map.empty \<rparr>)"

definition BuildOpenAPISpec :: "WebService list \<Rightarrow> Config \<Rightarrow> OpenAPI option \<times> error option" where
  "BuildOpenAPISpec webServices cfg =
     (case newOpenAPI cfg of
        (b, doc) \<Rightarrow>
          (case buildOpenAPISpec b webServices doc of
             (doc', err) \<Rightarrow> (Some doc', err)))"

subsection \<open>Properties of buildParameter\<close>

text \<open>
  Claim C6. \<^verbatim>\<open>buildParameter\<close> gives a path-kind parameter the location tag \<^verbatim>\<open>"path"\<close>, a
  query-kind one \<^verbatim>\<open>"query"\<close> and a header-kind one \<^verbatim>\<open>"header"\<close>; and it returns an error
  if and only if the kind is none of path, query and header (body and form among them), or the
  kind is path and the parameter is not marked required.
\<close>

theorem buildParameter_kinds_and_errors:
  "pIn (fst (buildParameter (p\<lparr>Kind := PathParameterKind\<rparr>))) = ''path''
   \<and> pIn (fst (buildParameter (p\<lparr>Kind := QueryParameterKind\<rparr>))) = ''query''
   \<and> pIn (fst (buildParameter (p\<lparr>Kind := HeaderParameterKind\<rparr>))) = ''header''
   \<and> ((snd (buildParameter p) \<noteq> None) =
        (Kind p \<notin> {PathParameterKind, QueryParameterKind, HeaderParameterKind}
         \<or> (Kind p = PathParameterKind \<and> \<not> Required p)))"
  by (simp add: buildParameter_def Let_def ParameterKind_defs)

theorem buildParameter_kinds_and_errors_witness:
  "pIn (fst (buildParameter \<lparr>Name = ''path'', Description = ''d'', DataType = ''string'',
        Kind = PathParameterKind, Required = True\<rparr>)) = ''path''
   \<and> snd (buildParameter \<lparr>Name = ''path'', Description = ''d'', DataType = ''string'',
        Kind = PathParameterKind, Required = True\<rparr>) = None
   \<and> snd (buildParameter \<lparr>Name = ''path'', Description = ''d'', DataType = ''string'',
        Kind = PathParameterKind, Required = False\<rparr>) \<noteq> None
   \<and> snd (buildParameter \<lparr>Name = ''f'', Description = ''d'', DataType = ''number'',
        Kind = FormParameterKind, Required = False\<rparr>) \<noteq> None
   \<and> snd (buildParameter \<lparr>Name = ''b'', Description = ''d'', DataType = ''string'',
        Kind = BodyParameterKind, Required = True\<rparr>) \<noteq> None"
  using buildParameter_kinds_and_errors
    [of "\<lparr>Name = ''path'', Description = ''d'', DataType = ''string'',
          Kind = PathParameterKind, Required = True\<rparr>"]
    buildParameter_kinds_and_errors
    [of "\<lparr>Name = ''path'', Description = ''d'', DataType = ''string'',
          Kind = PathParameterKind, Required = False\<rparr>"]
    buildParameter_kinds_and_errors
    [of "\<lparr>Name = ''f'', Description = ''d'', DataType = ''number'',
          Kind = FormParameterKind, Required = False\<rparr>"]
    buildParameter_kinds_and_errors
    [of "\<lparr>Name = ''b'', Description = ''d'', DataType = ''string'',
          Kind = BodyParameterKind, Required = True\<rparr>"]
  by (simp add: ParameterKind_defs)

end
